theory Spec2Isabelle
  imports Complex_Main
begin

section \<open>Numbers and vectors\<close>

text \<open>
  The visualisation computes with JavaScript numbers and GLSL floats. They are modelled
  as real numbers: every comparison and every arithmetic operation of the source is kept,
  rounding is not. A \<open>vec3\<close> is a triple of reals.
\<close>

type_synonym vec3 = "real \<times> real \<times> real"

type_synonym vec4 = "real \<times> real \<times> real \<times> real"

section \<open>Shared drag state (src/App.tsx, lines 14-26)\<close>

text \<open>
  The module-level object \<open>drag\<close> is one mutable record shared by the particle group and
  the box. Every handler below takes the record and returns the updated one.
\<close>

record drag_state =
  yaw :: real
  pitch :: real
  velYaw :: real
  velPitch :: real
  active :: bool
  lastX :: real
  lastY :: real

definition drag_init :: drag_state where
  "drag_init = \<lparr>yaw = 0, pitch = 0, velYaw = 0, velPitch = 0,
                 active = False, lastX = 0, lastY = 0\<rparr>"

definition DRAG_SENS :: real where
  "DRAG_SENS = 0.004"

definition DAMPING :: real where
  "DAMPING = 0.90"

definition PITCH_LIMIT :: real where
  "PITCH_LIMIT = pi * 0.45"

text \<open>The fields of a pointer event that the handlers read.\<close>

record pointer_event =
  clientX :: real
  clientY :: real
  pointerType :: string
  button :: int

text \<open>\<open>onMove\<close> (lines 70-85): ignored unless a drag is active.\<close>

definition onMove :: "pointer_event \<Rightarrow> drag_state \<Rightarrow> drag_state" where
  "onMove e d =
     (if \<not> active d then d
      else
        let dx = clientX e - lastX d;
            dy = clientY e - lastY d;
            d1 = d\<lparr>lastX := clientX e, lastY := clientY e\<rparr>;
            d2 = d1\<lparr>velYaw := dx * DRAG_SENS, velPitch := dy * DRAG_SENS\<rparr>;
            d3 = d2\<lparr>yaw := yaw d2 + velYaw d2\<rparr>
        in d3\<lparr>pitch := max (- PITCH_LIMIT) (min PITCH_LIMIT (pitch d3 + velPitch d3))\<rparr>)"

text \<open>\<open>onUp\<close> (line 87).\<close>

definition onUp :: "drag_state \<Rightarrow> drag_state" where
  "onUp d = d\<lparr>active := False\<rparr>"

text \<open>\<open>startDrag\<close> (lines 101-108): a mouse button other than the primary one is ignored.\<close>

definition startDrag :: "pointer_event \<Rightarrow> drag_state \<Rightarrow> drag_state" where
  "startDrag e d =
     (if pointerType e = ''mouse'' \<and> button e \<noteq> 0 then d
      else d\<lparr>active := True, lastX := clientX e, lastY := clientY e\<rparr>)"

text \<open>\<open>advanceDragInertia\<close> (lines 112-121): returns at once while a drag is active.\<close>

definition advanceDragInertia :: "drag_state \<Rightarrow> drag_state" where
  "advanceDragInertia d =
     (if active d then d
      else
        let d1 = d\<lparr>yaw := yaw d + velYaw d\<rparr>;
            d2 = d1\<lparr>pitch := pitch d1 + velPitch d1\<rparr>;
            d3 = d2\<lparr>pitch := max (- PITCH_LIMIT) (min PITCH_LIMIT (pitch d2))\<rparr>;
            d4 = d3\<lparr>velYaw := velYaw d3 * DAMPING\<rparr>;
            d5 = d4\<lparr>velPitch := velPitch d4 * DAMPING\<rparr>;
            d6 = (if \<bar>velYaw d5\<bar> < 1 / 100000 then d5\<lparr>velYaw := 0\<rparr> else d5)
        in (if \<bar>velPitch d6\<bar> < 1 / 100000 then d6\<lparr>velPitch := 0\<rparr> else d6))"

text \<open>
  What can happen to the drag state: the three pointer events and the per-frame inertia
  step, which the particle group's frame callback runs once per frame (line 330).
\<close>

datatype drag_event =
    PointerDown pointer_event
  | PointerMove pointer_event
  | PointerUp
  | Frame

fun drag_step :: "drag_state \<Rightarrow> drag_event \<Rightarrow> drag_state" where
  "drag_step d (PointerDown e) = startDrag e d"
| "drag_step d (PointerMove e) = onMove e d"
| "drag_step d PointerUp = onUp d"
| "drag_step d Frame = advanceDragInertia d"

definition drag_run :: "drag_event list \<Rightarrow> drag_state" where
  "drag_run evs = foldl drag_step drag_init evs"

text \<open>The state after \<open>n\<close> consecutive frames without pointer events.\<close>

definition idle_frames :: "nat \<Rightarrow> drag_state \<Rightarrow> drag_state" where
  "idle_frames n d = (advanceDragInertia ^^ n) d"

text \<open>Concrete events used below: a primary-button press at the origin and a move to x = 100.\<close>

definition press_origin :: pointer_event where
  "press_origin = \<lparr>clientX = 0, clientY = 0, pointerType = ''mouse'', button = 0\<rparr>"

definition move_100 :: pointer_event where
  "move_100 = \<lparr>clientX = 100, clientY = 0, pointerType = ''mouse'', button = 0\<rparr>"

text \<open>The drag state after pressing at the origin, moving to x = 100 and releasing.\<close>

definition released_after_move :: drag_state where
  "released_after_move = onUp (onMove move_100 (startDrag press_origin drag_init))"

text \<open>The same state one frame later: the assembly is coasting.\<close>

definition coasting :: drag_state where
  "coasting = idle_frames 1 released_after_move"

text \<open>The invariant of the pitch clamp.\<close>

definition pitch_ok :: "drag_state \<Rightarrow> bool" where
  "pitch_ok d \<longleftrightarrow> - PITCH_LIMIT \<le> pitch d \<and> pitch d \<le> PITCH_LIMIT"

section \<open>Vertex shader (src/App.tsx, lines 266-301; the same text in the earlier revision)\<close>

text \<open>
  Modelled from the spec: the GLSL built-ins \<open>clamp\<close>, \<open>smoothstep\<close> and \<open>mix\<close>, which the
  shader calls and the repository does not define. The spec (4.2) gives \<open>smoothstep(a,b,x)\<close>
  as: clamp \<open>t = (x - a) / (b - a)\<close> to \<open>[0,1]\<close>, return \<open>t * t * (3 - 2 * t)\<close>; \<open>mix\<close> is
  the linear interpolation \<open>x * (1 - a) + y * a\<close>, component by component on vectors.
\<close>

definition clamp :: "real \<Rightarrow> real \<Rightarrow> real \<Rightarrow> real" where
  "clamp x lo hi = min (max x lo) hi"

definition smoothstep :: "real \<Rightarrow> real \<Rightarrow> real \<Rightarrow> real" where
  "smoothstep a b x = (let t = clamp ((x - a) / (b - a)) 0 1 in t * t * (3 - 2 * t))"

definition mix :: "real \<Rightarrow> real \<Rightarrow> real \<Rightarrow> real" where
  "mix x y a = x * (1 - a) + y * a"

fun mix3 :: "vec3 \<Rightarrow> vec3 \<Rightarrow> real \<Rightarrow> vec3" where
  "mix3 (x1, x2, x3) (y1, y2, y3) a = (mix x1 y1 a, mix x2 y2 a, mix x3 y3 a)"

text \<open>
  What \<open>main\<close> computes for one particle. \<open>pos\<close> is the model-space position handed to
  the model-view matrix; the two matrices belong to the host renderer and are parameters.
\<close>

record vertex_out =
  pos :: vec3
  gl_Position :: vec4
  gl_PointSize :: real
  vAlpha :: real
  vPulse :: real

definition vertexShader ::
  "(vec4 \<Rightarrow> vec4) \<Rightarrow> (vec4 \<Rightarrow> vec4) \<Rightarrow> real \<Rightarrow> real \<Rightarrow> vec3 \<Rightarrow> vec3 \<Rightarrow> vec3 \<Rightarrow> real \<Rightarrow> vertex_out"
  where
  "vertexShader modelViewMatrix projectionMatrix uScroll uTime position aBox aBrain aOffset =
     (let p0 = position;
          t1 = smoothstep 0.1 0.3 uScroll;
          p1 = mix3 p0 aBox t1;
          t2 = smoothstep 0.5 0.7 uScroll;
          (x2, y2, z2) = mix3 p1 aBrain t2;
          y3 = y2 + sin (uTime * 1.5 + aOffset) * 0.2 * (1.0 - t1 * 0.9);
          x3 = x2 + cos (uTime * 1.0 + aOffset) * 0.1 * (1.0 - t1 * 0.9);
          (mx, my, mz, mw) = modelViewMatrix (x3, y3, z2, 1.0);
          size1 = mix 20.0 10.0 t1;
          size2 = mix size1 15.0 t2;
          pulse = sin (uTime * 3.0 + aOffset) * 0.5 + 0.5;
          size3 = size2 + pulse * 4.0;
          alpha1 = mix 0.4 0.8 t1;
          alpha2 = mix alpha1 0.6 t2;
          introFade = smoothstep 0.05 0.15 uScroll
      in \<lparr>pos = (x3, y3, z2),
          gl_Position = projectionMatrix (mx, my, mz, mw),
          gl_PointSize = size3 / - mz,
          vAlpha = alpha2 * introFade,
          vPulse = pulse\<rparr>)"

section \<open>Frame callbacks (src/App.tsx, lines 321-336 and 367-395)\<close>

text \<open>
  The particle group's frame callback: it writes the two uniforms, advances the drag
  inertia, then sets the group's rotation. The refs are taken as mounted.
\<close>

record particle_frame =
  uScroll_value :: real
  uTime_value :: real
  group_rotation_y :: real
  group_rotation_x :: real

definition ParticleSystem_useFrame ::
  "real \<Rightarrow> real \<Rightarrow> drag_state \<Rightarrow> particle_frame \<times> drag_state" where
  "ParticleSystem_useFrame elapsedTime s d =
     (let d' = advanceDragInertia d
      in (\<lparr>uScroll_value = s,
           uTime_value = elapsedTime,
           group_rotation_y = elapsedTime * 0.05 + s * pi * 2 + yaw d',
           group_rotation_x = s * pi * 0.5 + pitch d'\<rparr>, d'))"

text \<open>The box's opacity and scale as functions of the scroll value (lines 370-376).\<close>

definition BlackBox_opacity :: "real \<Rightarrow> real" where
  "BlackBox_opacity s =
     (if s > 0.1 \<and> s \<le> 0.3 then (s - 0.1) / 0.2
      else if s > 0.3 \<and> s \<le> 0.4 then 1
      else if s > 0.4 \<and> s \<le> 0.5 then 1 - (s - 0.4) / 0.1
      else 0)"

definition BlackBox_scale :: "real \<Rightarrow> real" where
  "BlackBox_scale s = (if s > 0.4 \<and> s \<le> 0.5 then 1 + ((s - 0.4) / 0.1) * 0.8 else 1)"

text \<open>The box's frame callback: it reads the drag state and never advances it.\<close>

record box_frame =
  box_scale :: real
  box_rotation_y :: real
  box_rotation_x :: real
  solid_opacity :: real
  solid_visible :: bool
  wire_opacity :: real
  wire_visible :: bool

definition BlackBox_useFrame :: "real \<Rightarrow> drag_state \<Rightarrow> box_frame" where
  "BlackBox_useFrame s d =
     (let opacity = BlackBox_opacity s;
          scale = BlackBox_scale s
      in \<lparr>box_scale = scale,
          box_rotation_y = s * pi * 2 + yaw d,
          box_rotation_x = s * pi * 0.5 + pitch d,
          solid_opacity = opacity * 0.95,
          solid_visible = (opacity > 0),
          wire_opacity = opacity * 0.3,
          wire_visible = (opacity > 0)\<rparr>)"

text \<open>One rendered frame: the particle group's callback runs first, then the box's.\<close>

definition render_frame :: "real \<Rightarrow> real \<Rightarrow> drag_state \<Rightarrow> particle_frame \<times> box_frame \<times> drag_state" where
  "render_frame elapsedTime s d =
     (let (pf, d') = ParticleSystem_useFrame elapsedTime s d
      in (pf, BlackBox_useFrame s d', d'))"

section \<open>Typed arrays and the random source\<close>

text \<open>
  A \<open>Float32Array\<close> is a list of reals, created zero-filled. A write is a list update
  (out of range it changes nothing, as in JavaScript); a read out of range gives
  \<open>undefined\<close>, which is no number: \<open>None\<close>.
\<close>

definition Float32Array :: "nat \<Rightarrow> real list" where
  "Float32Array n = replicate n 0"

definition read_at :: "real list \<Rightarrow> nat \<Rightarrow> real option" where
  "read_at xs i = (if i < length xs then Some (xs ! i) else None)"

text \<open>
  \<open>Math.random()\<close> is a stream \<open>rng\<close> of numbers with a cursor: the call made at cursor
  \<open>k\<close> returns \<open>rng k\<close> and moves the cursor to \<open>k + 1\<close>. JavaScript promises
  \<open>0 \<le> rng k < 1\<close>.
\<close>

type_synonym random_source = "nat \<Rightarrow> real"

definition unit_range :: "random_source \<Rightarrow> bool" where
  "unit_range rng \<longleftrightarrow> (\<forall>k. 0 \<le> rng k \<and> rng k < 1)"

text \<open>The four per-particle arrays that both revisions of \<open>ParticleSystem\<close> build.\<close>

record position_table =
  random :: "real list"
  box :: "real list"
  brain :: "real list"
  randomOffsets :: "real list"

definition empty_table :: "nat \<Rightarrow> position_table" where
  "empty_table n =
     \<lparr>random = Float32Array (n * 3), box = Float32Array (n * 3),
      brain = Float32Array (n * 3), randomOffsets = Float32Array n\<rparr>"

section \<open>Brain shape by rejection sampling (earlier revision, lines 150-215)\<close>

text \<open>
  The two probabilistic cuts that come before the folds. Each returns whether the
  candidate is rejected, and the cursor after the random numbers it drew.
\<close>

definition bottom_front :: "random_source \<Rightarrow> nat \<Rightarrow> real \<Rightarrow> real \<Rightarrow> bool \<times> nat" where
  "bottom_front rng k bx by =
     (if by < - 0.2 \<and> bx > - 0.2
      then (if by < - 0.4 then (True, k) else (rng k > (by + 0.4) * 5, k + 1))
      else (False, k))"

definition cerebellum_gap ::
  "random_source \<Rightarrow> nat \<Rightarrow> real \<Rightarrow> real \<Rightarrow> real \<Rightarrow> bool \<times> nat" where
  "cerebellum_gap rng k bx by bz =
     (if by < - 0.2 \<and> bx < - 0.2
      then (let distToCerebCenter = sqrt ((bx + 0.5) ^ 2 + (by + 0.5) ^ 2 + bz ^ 2)
            in if distToCerebCenter > 0.4 \<and> distToCerebCenter < 0.5
               then (rng k > 0.1, k + 1)
               else (False, k))
      else (False, k))"

text \<open>
  One pass through the body of the \<open>while (true)\<close> loop (lines 172-205): the candidate if
  it reached \<open>break\<close>, \<open>None\<close> if a \<open>continue\<close> was taken, and the cursor afterwards.
\<close>

definition attempt :: "random_source \<Rightarrow> nat \<Rightarrow> vec3 option \<times> nat" where
  "attempt rng k =
     (let bx = (rng k - 0.5) * 2;
          by = (rng (k + 1) - 0.5) * 2;
          bz = (rng (k + 2) - 0.5) * 2;
          k1 = k + 3
      in if (bx * bx) + (by * by) * 1.4 + (bz * bz) * 1.2 > 1.0 then (None, k1)
         else
           let (cut, k2) = bottom_front rng k1 bx by
           in if cut then (None, k2)
              else
                let (gap, k3) = cerebellum_gap rng k2 bx by bz
                in if gap then (None, k3)
                   else
                     let nx = bx * 12;
                         ny = by * 12;
                         nz = bz * 12;
                         noise = sin (nx + cos ny) * cos (ny + sin nz) * sin (nz + cos nx)
                     in if noise > 0.25 then (None, k3)
                        else
                          let fissure = \<bar>bz\<bar>
                          in if fissure < 0.04 then (None, k3)
                             else if fissure < 0.08
                             then (if rng k3 > (fissure - 0.04) * 25 then (None, k3 + 1)
                                   else (Some (bx, by, bz), k3 + 1))
                             else (Some (bx, by, bz), k3))"

text \<open>
  The loop itself has no bound, so it is a partial function: \<open>None\<close> means that it never
  reaches \<open>break\<close>.
\<close>

partial_function (option) brain_loop :: "random_source \<Rightarrow> nat \<Rightarrow> (vec3 \<times> nat) option" where
  "brain_loop rng k =
     (case attempt rng k of
        (Some c, k') \<Rightarrow> Some (c, k')
      | (None, k') \<Rightarrow> brain_loop rng k')"

text \<open>The cursor after \<open>n\<close> passes through the loop body, starting at cursor \<open>k\<close>.\<close>

primrec cursor_after :: "random_source \<Rightarrow> nat \<Rightarrow> nat \<Rightarrow> nat" where
  "cursor_after rng k 0 = k"
| "cursor_after rng k (Suc n) = snd (attempt rng (cursor_after rng k n))"

text \<open>The body of the \<open>for\<close> loop for particle \<open>i\<close> (lines 156-212).\<close>

definition particle_body ::
  "random_source \<Rightarrow> nat \<Rightarrow> position_table \<times> nat \<Rightarrow> (position_table \<times> nat) option" where
  "particle_body rng i sk =
     (let (st, k) = sk;
          i3 = i * 3;
          random' = (random st)[i3 := (rng k - 0.5) * 50,
                                i3 + 1 := (rng (k + 1) - 0.5) * 50,
                                i3 + 2 := (rng (k + 2) - 0.5) * 50];
          box' = (box st)[i3 := (rng (k + 3) - 0.5) * 5.1,
                          i3 + 1 := (rng (k + 4) - 0.5) * 5.1,
                          i3 + 2 := (rng (k + 5) - 0.5) * 5.1]
      in case brain_loop rng (k + 6) of
           None \<Rightarrow> None
         | Some ((bx, by, bz), k') \<Rightarrow>
             Some (st\<lparr>random := random', box := box',
                      brain := (brain st)[i3 := bx * 5.5, i3 + 1 := by * 5.0, i3 + 2 := bz * 4.5],
                      randomOffsets := (randomOffsets st)[i := rng k' * pi * 2]\<rparr>,
                   k' + 1))"

text \<open>The arrays and the cursor after the first \<open>i\<close> iterations of the \<open>for\<close> loop.\<close>

primrec positions_upto :: "random_source \<Rightarrow> nat \<Rightarrow> nat \<Rightarrow> (position_table \<times> nat) option" where
  "positions_upto rng n 0 = Some (empty_table n, 0)"
| "positions_upto rng n (Suc i) =
     (case positions_upto rng n i of
        None \<Rightarrow> None
      | Some sk \<Rightarrow> particle_body rng i sk)"

text \<open>
  \<open>positions\<close> for \<open>n\<close> particles (\<open>PARTICLE_COUNT\<close> is 40000 in this revision): \<open>None\<close> if
  some particle's sampling loop never ends.
\<close>

definition positions :: "random_source \<Rightarrow> nat \<Rightarrow> position_table option" where
  "positions rng n = map_option fst (positions_upto rng n n)"

text \<open>
  The predicates of the brain shape that hold without reference to the random cuts, on a
  candidate before the per-axis scaling.
\<close>

definition shape_ok :: "real \<Rightarrow> real \<Rightarrow> real \<Rightarrow> bool" where
  "shape_ok x y z \<longleftrightarrow>
     x\<^sup>2 + 1.4 * y\<^sup>2 + 1.2 * z\<^sup>2 \<le> 1.0 \<and>
     \<bar>z\<bar> \<ge> 0.04 \<and>
     \<not> (y < - 0.2 \<and> x > - 0.2 \<and> y < - 0.4) \<and>
     sin (12 * x + cos (12 * y)) * cos (12 * y + sin (12 * z)) * sin (12 * z + cos (12 * x)) \<le> 0.25"

text \<open>Random sources for the examples: all zeros, and one accepted draw after \<open>m\<close> zeros.\<close>

definition rng_zero :: random_source where
  "rng_zero k = 0"

definition rng_accept_after :: "nat \<Rightarrow> random_source" where
  "rng_accept_after m k = (if k < m then 0 else if k = m + 2 then 11 / 24 else 1 / 2)"

section \<open>Brain shape from the mesh asset (src/App.tsx, lines 30-61 and 236-258)\<close>

text \<open>
  The scene is the list of its objects in the order \<open>traverse\<close> visits them; an object
  carries the \<open>isMesh\<close> flag and its geometry. \<open>MeshSurfaceSampler\<close> belongs to a library:
  \<open>sample g i\<close> is the point that the sampler built on geometry \<open>g\<close> returns at its call
  number \<open>i\<close>.
\<close>

record 'g object3d =
  isMesh :: bool
  geometry :: 'g

definition no_mesh_warning :: string where
  "no_mesh_warning =
     ''No mesh found in brain.glb '' @ [CHR 0xE2, CHR 0x80, CHR 0x94] @ '' falling back to ellipsoid''"

text \<open>The output array after the first \<open>i\<close> iterations of the sampling loop (lines 52-57).\<close>

primrec sample_upto :: "('g \<Rightarrow> nat \<Rightarrow> vec3) \<Rightarrow> 'g \<Rightarrow> nat \<Rightarrow> nat \<Rightarrow> real list" where
  "sample_upto sample g count 0 = Float32Array (count * 3)"
| "sample_upto sample g count (Suc i) =
     (let (x, y, z) = sample g i
      in (sample_upto sample g count i)[i * 3 + 0 := x, i * 3 + 1 := y, i * 3 + 2 := z])"

text \<open>\<open>useBrainTargets\<close>: the target array and what was written to the console.\<close>

definition useBrainTargets ::
  "('g \<Rightarrow> nat \<Rightarrow> vec3) \<Rightarrow> 'g object3d list \<Rightarrow> nat \<Rightarrow> real list \<times> string list" where
  "useBrainTargets sample scene count =
     (case find isMesh scene of
        None \<Rightarrow> (Float32Array (count * 3), [no_mesh_warning])
      | Some brainMesh \<Rightarrow> (sample_upto sample (geometry brainMesh) count count, []))"

text \<open>
  The body of the \<open>for\<close> loop of \<open>positions\<close> in this revision (lines 243-255). A target
  read out of range would make the product no number: the result is \<open>None\<close> then.
\<close>

definition mesh_particle_body ::
  "random_source \<Rightarrow> real list \<Rightarrow> nat \<Rightarrow> position_table \<times> nat \<Rightarrow> (position_table \<times> nat) option"
  where
  "mesh_particle_body rng brainTargets i sk =
     (let (st, k) = sk;
          scale = 5.0;
          i3 = i * 3;
          random' = (random st)[i3 := (rng k - 0.5) * 50,
                                i3 + 1 := (rng (k + 1) - 0.5) * 50,
                                i3 + 2 := (rng (k + 2) - 0.5) * 50];
          box' = (box st)[i3 := (rng (k + 3) - 0.5) * 5.1,
                          i3 + 1 := (rng (k + 4) - 0.5) * 5.1,
                          i3 + 2 := (rng (k + 5) - 0.5) * 5.1]
      in case (read_at brainTargets i3, read_at brainTargets (i3 + 1), read_at brainTargets (i3 + 2)) of
           (Some tx, Some ty, Some tz) \<Rightarrow>
             Some (st\<lparr>random := random', box := box',
                      brain := (brain st)[i3 := tx * scale, i3 + 1 := ty * scale, i3 + 2 := tz * scale],
                      randomOffsets := (randomOffsets st)[i := rng (k + 6) * pi * 2]\<rparr>,
                   k + 7)
         | _ \<Rightarrow> None)"

primrec mesh_positions_upto ::
  "random_source \<Rightarrow> real list \<Rightarrow> nat \<Rightarrow> nat \<Rightarrow> (position_table \<times> nat) option" where
  "mesh_positions_upto rng brainTargets n 0 = Some (empty_table n, 0)"
| "mesh_positions_upto rng brainTargets n (Suc i) =
     (case mesh_positions_upto rng brainTargets n i of
        None \<Rightarrow> None
      | Some sk \<Rightarrow> mesh_particle_body rng brainTargets i sk)"

definition mesh_positions :: "random_source \<Rightarrow> real list \<Rightarrow> nat \<Rightarrow> position_table option" where
  "mesh_positions rng brainTargets n = map_option fst (mesh_positions_upto rng brainTargets n n)"

text \<open>
  \<open>BrainParticleSystem\<close> (lines 355-358): the targets of \<open>useBrainTargets\<close> go to
  \<open>ParticleSystem\<close>, for the same particle count (\<open>PARTICLE_COUNT\<close>, 500000).
\<close>

definition BrainParticleSystem ::
  "('g \<Rightarrow> nat \<Rightarrow> vec3) \<Rightarrow> 'g object3d list \<Rightarrow> random_source \<Rightarrow> nat \<Rightarrow>
     position_table option \<times> string list" where
  "BrainParticleSystem sample scene rng n =
     (let (brainTargets, console) = useBrainTargets sample scene n
      in (mesh_positions rng brainTargets n, console))"

text \<open>A scene with a group and a light and no mesh, and a sampler that is never asked.\<close>

definition scene_without_mesh :: "unit object3d list" where
  "scene_without_mesh = [\<lparr>isMesh = False, geometry = ()\<rparr>, \<lparr>isMesh = False, geometry = ()\<rparr>]"

definition sample_origin :: "unit \<Rightarrow> nat \<Rightarrow> vec3" where
  "sample_origin g i = (0, 0, 0)"

section \<open>Drag controller: proofs\<close>

lemma PITCH_LIMIT_nonneg: "0 \<le> PITCH_LIMIT"
  by (simp add: PITCH_LIMIT_def)

lemma clamp_pitch_bounds:
  "- PITCH_LIMIT \<le> max (- PITCH_LIMIT) (min PITCH_LIMIT x) \<and>
   max (- PITCH_LIMIT) (min PITCH_LIMIT x) \<le> PITCH_LIMIT"
  using PITCH_LIMIT_nonneg by auto

lemma pitch_ok_init: "pitch_ok drag_init"
  using PITCH_LIMIT_nonneg by (simp add: pitch_ok_def drag_init_def)

lemma pitch_ok_onMove: "pitch_ok d \<Longrightarrow> pitch_ok (onMove e d)"
  using clamp_pitch_bounds by (simp add: pitch_ok_def onMove_def Let_def)

lemma pitch_ok_onUp: "pitch_ok d \<Longrightarrow> pitch_ok (onUp d)"
  by (simp add: pitch_ok_def onUp_def)

lemma pitch_ok_startDrag: "pitch_ok d \<Longrightarrow> pitch_ok (startDrag e d)"
  by (simp add: pitch_ok_def startDrag_def)

lemma pitch_ok_advance: "pitch_ok d \<Longrightarrow> pitch_ok (advanceDragInertia d)"
  using clamp_pitch_bounds by (simp add: pitch_ok_def advanceDragInertia_def Let_def)

lemma pitch_ok_step: "pitch_ok d \<Longrightarrow> pitch_ok (drag_step d ev)"
  by (cases ev) (simp_all add: pitch_ok_onMove pitch_ok_onUp pitch_ok_startDrag pitch_ok_advance)

lemma pitch_ok_foldl: "pitch_ok d \<Longrightarrow> pitch_ok (foldl drag_step d evs)"
  by (induction evs arbitrary: d) (simp_all add: pitch_ok_step)

subsection \<open>Inertia decay\<close>

lemma last_coast_threshold: "(1::real) / 100000 \<le> 0.4 * 0.9 ^ 100"
  by (simp add: power_divide)

lemma snap_threshold: "(0.4::real) * 0.9 ^ 101 < 1 / 100000"
  by (simp add: power_divide)

lemma advance_idle_velYaw:
  "\<not> active d \<Longrightarrow> velYaw (advanceDragInertia d) =
     (if \<bar>velYaw d * 0.9\<bar> < 1 / 100000 then 0 else velYaw d * 0.9)"
  by (simp add: advanceDragInertia_def Let_def DAMPING_def)

lemma advance_idle_active: "\<not> active d \<Longrightarrow> \<not> active (advanceDragInertia d)"
  by (simp add: advanceDragInertia_def Let_def)

lemma idle_frames_active: "\<not> active d \<Longrightarrow> \<not> active (idle_frames n d)"
  by (induction n) (simp_all add: idle_frames_def advance_idle_active)

lemma idle_frames_Suc: "idle_frames (Suc n) d = advanceDragInertia (idle_frames n d)"
  by (simp add: idle_frames_def)

lemma decay_step:
  assumes "\<not> active d" "velYaw d = 0.4 * 0.9 ^ n"
  shows "velYaw (advanceDragInertia d) =
           (if 0.4 * 0.9 ^ Suc n < (1::real) / 100000 then 0 else 0.4 * 0.9 ^ Suc n)"
proof -
  have "velYaw d * 0.9 = 0.4 * 0.9 ^ Suc n"
    by (simp add: assms(2))
  moreover have "(0::real) \<le> 0.4 * 0.9 ^ Suc n"
    by simp
  ultimately have "\<bar>velYaw d * 0.9\<bar> = 0.4 * 0.9 ^ Suc n"
    by (simp only: abs_of_nonneg)
  then show ?thesis
    using \<open>velYaw d * 0.9 = 0.4 * 0.9 ^ Suc n\<close>
    by (simp only: advance_idle_velYaw [OF assms(1)])
qed

lemma snap_threshold_Suc: "(0.4::real) * 0.9 ^ Suc 100 < 1 / 100000"
  using snap_threshold by simp

lemma decay_before_snap:
  assumes "\<not> active d" "velYaw d = 0.4" "n \<le> 100"
  shows "velYaw (idle_frames n d) = 0.4 * 0.9 ^ n"
  using assms(3)
proof (induction n)
  case 0
  then show ?case by (simp add: idle_frames_def assms(2))
next
  case (Suc n)
  then have ih: "velYaw (idle_frames n d) = 0.4 * 0.9 ^ n" by simp
  have "(0.9::real) ^ 100 \<le> 0.9 ^ Suc n"
    using Suc.prems by (intro power_decreasing) simp_all
  then have "\<not> (0.4 * 0.9 ^ Suc n < (1::real) / 100000)"
    using last_coast_threshold by linarith
  then show ?case
    using decay_step [OF idle_frames_active [OF assms(1)] ih]
    by (simp only: idle_frames_Suc if_False)
qed

lemma decay_after_snap:
  assumes "\<not> active d" "velYaw d = 0.4" "100 < n"
  shows "velYaw (idle_frames n d) = 0"
  using assms(3)
proof (induction n)
  case 0
  then show ?case by simp
next
  case (Suc n)
  show ?case
  proof (cases "n = 100")
    case True
    have "velYaw (idle_frames 100 d) = 0.4 * 0.9 ^ 100"
      using decay_before_snap [OF assms(1,2), of 100] by simp
    then show ?thesis
      using decay_step [OF idle_frames_active [OF assms(1)], of 100 100] snap_threshold_Suc True
      by (simp only: idle_frames_Suc if_True)
  next
    case False
    then have "velYaw (idle_frames n d) = 0" using Suc by simp
    then show ?thesis
      using idle_frames_active [OF assms(1), of n]
      by (simp add: idle_frames_Suc advance_idle_velYaw)
  qed
qed

lemma released_facts:
  "\<not> active released_after_move \<and> velYaw released_after_move = 0.4"
  by (simp add: released_after_move_def onUp_def onMove_def startDrag_def press_origin_def
      move_100_def drag_init_def DRAG_SENS_def Let_def)

text \<open>
  C6 (amended). A pointer-move with horizontal delta 100 during an active drag sets
  \<open>velYaw\<close> to exactly 0.4. After release, \<open>n\<close> idle frames leave
  \<open>velYaw = 0.4 * 0.9 ^ n\<close>, of magnitude at least 1e-5, for every \<open>n \<le> 100\<close>;
  from frame 101 on \<open>velYaw\<close> is exactly 0. The snap happens at frame 101, not
  near frame 131.
\<close>

theorem drag_release_decay:
  assumes "active d" and "clientX e - lastX d = 100"
  shows "velYaw (onMove e d) = 0.4 \<and>
         (n \<le> 100 \<longrightarrow> velYaw (idle_frames n (onUp (onMove e d))) = 0.4 * 0.9 ^ n
                      \<and> 1 / 100000 \<le> \<bar>velYaw (idle_frames n (onUp (onMove e d)))\<bar>) \<and>
         (100 < n \<longrightarrow> velYaw (idle_frames n (onUp (onMove e d))) = 0)"
proof -
  have v: "velYaw (onMove e d) = 0.4"
    using assms by (simp add: onMove_def Let_def DRAG_SENS_def)
  have na: "\<not> active (onUp (onMove e d))"
    by (simp add: onUp_def)
  have v': "velYaw (onUp (onMove e d)) = 0.4"
    using v by (simp add: onUp_def)
  have before: "velYaw (idle_frames n (onUp (onMove e d))) = 0.4 * 0.9 ^ n
      \<and> 1 / 100000 \<le> \<bar>velYaw (idle_frames n (onUp (onMove e d)))\<bar>" if "n \<le> 100"
  proof -
    have eq: "velYaw (idle_frames n (onUp (onMove e d))) = 0.4 * 0.9 ^ n"
      by (rule decay_before_snap [OF na v' that])
    have "(0.9::real) ^ 100 \<le> 0.9 ^ n"
      using that by (intro power_decreasing) simp_all
    then have "(1::real) / 100000 \<le> 0.4 * 0.9 ^ n"
      using last_coast_threshold by linarith
    then show ?thesis
      using eq by simp
  qed
  have after: "velYaw (idle_frames n (onUp (onMove e d))) = 0" if "100 < n"
    by (rule decay_after_snap [OF na v' that])
  show ?thesis
    using v before after by blast
qed

text \<open>The theorem at a press at the origin followed by a move to x = 100.\<close>

theorem drag_release_decay_witness:
  "active (startDrag press_origin drag_init) \<and>
   clientX move_100 - lastX (startDrag press_origin drag_init) = 100 \<and>
   velYaw (onMove move_100 (startDrag press_origin drag_init)) = 0.4 \<and>
   velYaw (idle_frames 3 released_after_move) = 0.4 * 0.9 ^ 3 \<and>
   velYaw (idle_frames 100 released_after_move) = 0.4 * 0.9 ^ 100 \<and>
   velYaw (idle_frames 101 released_after_move) = 0"
proof -
  have h1: "active (startDrag press_origin drag_init)"
    by (simp add: startDrag_def press_origin_def)
  have h2: "clientX move_100 - lastX (startDrag press_origin drag_init) = 100"
    by (simp add: startDrag_def press_origin_def move_100_def)
  show ?thesis
    using h1 h2 drag_release_decay [OF h1 h2, of 3] drag_release_decay [OF h1 h2, of 100]
      drag_release_decay [OF h1 h2, of 101]
    by (simp add: released_after_move_def)
qed

text \<open>
  C6 as stated puts the snap near frame 131. After the same press, move and release,
  \<open>velYaw\<close> is already 0 at frame 101, and at frame 130 it is not \<open>0.4 * 0.9 ^ 130\<close>.
\<close>

theorem snap_frame_counterexample:
  "velYaw (idle_frames 101 released_after_move) = 0 \<and>
   velYaw (idle_frames 130 released_after_move) \<noteq> 0.4 * 0.9 ^ 130"
proof -
  have a: "velYaw (idle_frames 101 released_after_move) = 0"
    using released_facts by (intro decay_after_snap) simp_all
  have b: "velYaw (idle_frames 130 released_after_move) = 0"
    using released_facts by (intro decay_after_snap) simp_all
  show ?thesis
    using a b by simp
qed

subsection \<open>Pointer-down leaves the orientation alone\<close>

lemma advance_active: "active d \<Longrightarrow> advanceDragInertia d = d"
  by (simp add: advanceDragInertia_def)

lemma idle_frames_frozen: "active d \<Longrightarrow> idle_frames n d = d"
  by (induction n) (simp_all add: idle_frames_def advance_active)

text \<open>
  C10. \<open>startDrag\<close> changes neither \<open>yaw\<close>, \<open>pitch\<close>, \<open>velYaw\<close> nor
  \<open>velPitch\<close>. The inertia step returns the state unchanged while a drag is active. So
  after a pointer-down that starts a drag (any pointer but a non-primary mouse button) and
  no move, any number of frames leaves the state frozen, and after release the velocities
  are the ones from before the press: the next frame advances \<open>yaw\<close> by the old
  \<open>velYaw\<close>.
\<close>

theorem startDrag_frame:
  "yaw (startDrag e d) = yaw d \<and> pitch (startDrag e d) = pitch d \<and>
   velYaw (startDrag e d) = velYaw d \<and> velPitch (startDrag e d) = velPitch d \<and>
   (active d' \<longrightarrow> advanceDragInertia d' = d') \<and>
   (pointerType e \<noteq> ''mouse'' \<or> button e = 0 \<longrightarrow>
      idle_frames n (startDrag e d) = startDrag e d \<and>
      onUp (idle_frames n (startDrag e d)) =
        d\<lparr>active := False, lastX := clientX e, lastY := clientY e\<rparr> \<and>
      velYaw (onUp (idle_frames n (startDrag e d))) = velYaw d \<and>
      velPitch (onUp (idle_frames n (startDrag e d))) = velPitch d \<and>
      yaw (advanceDragInertia (onUp (idle_frames n (startDrag e d)))) = yaw d + velYaw d)"
proof -
  have frame: "yaw (startDrag e d) = yaw d \<and> pitch (startDrag e d) = pitch d \<and>
      velYaw (startDrag e d) = velYaw d \<and> velPitch (startDrag e d) = velPitch d"
    by (simp add: startDrag_def)
  have early: "active d' \<longrightarrow> advanceDragInertia d' = d'"
    by (simp add: advance_active)
  have freeze: "idle_frames n (startDrag e d) = startDrag e d \<and>
      onUp (idle_frames n (startDrag e d)) =
        d\<lparr>active := False, lastX := clientX e, lastY := clientY e\<rparr> \<and>
      velYaw (onUp (idle_frames n (startDrag e d))) = velYaw d \<and>
      velPitch (onUp (idle_frames n (startDrag e d))) = velPitch d \<and>
      yaw (advanceDragInertia (onUp (idle_frames n (startDrag e d)))) = yaw d + velYaw d"
    if ok: "pointerType e \<noteq> ''mouse'' \<or> button e = 0"
  proof -
    have sd: "startDrag e d = d\<lparr>active := True, lastX := clientX e, lastY := clientY e\<rparr>"
      using ok by (auto simp add: startDrag_def)
    then have "active (startDrag e d)" by simp
    then have fr: "idle_frames n (startDrag e d) = startDrag e d"
      by (rule idle_frames_frozen)
    show ?thesis
      unfolding fr unfolding sd
      by (simp add: onUp_def advanceDragInertia_def Let_def)
  qed
  show ?thesis
    using frame early freeze by blast
qed

text \<open>The theorem at a press on the coasting assembly, five frames, then release.\<close>

theorem startDrag_frame_witness:
  "active (startDrag press_origin coasting) \<and>
   velYaw coasting = 0.36 \<and> yaw coasting = 0.8 \<and>
   idle_frames 5 (startDrag press_origin coasting) = startDrag press_origin coasting \<and>
   yaw (startDrag press_origin coasting) = 0.8 \<and>
   velYaw (onUp (idle_frames 5 (startDrag press_origin coasting))) = 0.36 \<and>
   yaw (advanceDragInertia (onUp (idle_frames 5 (startDrag press_origin coasting)))) = 1.16"
proof -
  have c: "velYaw coasting = 0.36 \<and> yaw coasting = 0.8"
    by (simp add: coasting_def idle_frames_def released_after_move_def onUp_def onMove_def
        startDrag_def press_origin_def move_100_def drag_init_def DRAG_SENS_def DAMPING_def
        advanceDragInertia_def Let_def)
  have p: "pointerType press_origin \<noteq> ''mouse'' \<or> button press_origin = 0"
    by (simp add: press_origin_def)
  have a: "active (startDrag press_origin coasting)"
    by (simp add: startDrag_def press_origin_def)
  note t = startDrag_frame [of press_origin coasting "startDrag press_origin coasting" 5]
  have t1: "idle_frames 5 (startDrag press_origin coasting) = startDrag press_origin coasting"
    using t p by blast
  have t2: "yaw (startDrag press_origin coasting) = yaw coasting"
    using t by blast
  have t3: "velYaw (onUp (idle_frames 5 (startDrag press_origin coasting))) = velYaw coasting"
    using t p by blast
  have t4: "yaw (advanceDragInertia (onUp (idle_frames 5 (startDrag press_origin coasting))))
      = yaw coasting + velYaw coasting"
    using t p by blast
  have c1: "velYaw coasting = 0.36" and c2: "yaw coasting = 0.8"
    using c by simp_all
  show ?thesis
    unfolding t3 t4 t2 c1 c2 using a t1 by simp
qed

subsection \<open>Pitch clamp\<close>

text \<open>
  C7. Starting from the initial drag state, after any sequence of pointer-down,
  pointer-move, pointer-up events and frames, the pitch lies within
  \<open>[-0.45 pi, 0.45 pi]\<close>.
\<close>

theorem pitch_within_limit:
  "- (0.45 * pi) \<le> pitch (drag_run evs) \<and> pitch (drag_run evs) \<le> 0.45 * pi"
proof -
  have "pitch_ok (drag_run evs)"
    unfolding drag_run_def by (rule pitch_ok_foldl [OF pitch_ok_init])
  then show ?thesis
    by (simp add: pitch_ok_def PITCH_LIMIT_def)
qed

section \<open>Smoothstep\<close>

lemma hermite_mono:
  fixes s t :: real
  assumes "0 \<le> s" "s \<le> t" "t \<le> 1"
  shows "s * s * (3 - 2 * s) \<le> t * t * (3 - 2 * t)"
proof -
  have "t * t * (3 - 2 * t) - s * s * (3 - 2 * s)
      = (t - s) * (t * (1 - s) + s * (1 - t) + 2 * t * (1 - t) + 2 * s * (1 - s))"
    by (simp add: algebra_simps)
  moreover have "0 \<le> (t - s) * (t * (1 - s) + s * (1 - t) + 2 * t * (1 - t) + 2 * s * (1 - s))"
    using assms by (intro mult_nonneg_nonneg add_nonneg_nonneg) simp_all
  ultimately show ?thesis by linarith
qed

lemma clamp_mono: "x \<le> y \<Longrightarrow> clamp x 0 1 \<le> clamp y 0 1"
  by (simp add: clamp_def min_def max_def)

lemma clamp_unit: "0 \<le> clamp x 0 1 \<and> clamp x 0 1 \<le> 1"
  by (simp add: clamp_def min_def max_def)

lemma smoothstep_mono:
  assumes "a < b" "x \<le> y"
  shows "smoothstep a b x \<le> smoothstep a b y"
proof -
  have "(x - a) / (b - a) \<le> (y - a) / (b - a)"
    using assms by (simp add: divide_right_mono)
  then have "clamp ((x - a) / (b - a)) 0 1 \<le> clamp ((y - a) / (b - a)) 0 1"
    by (rule clamp_mono)
  then show ?thesis
    unfolding smoothstep_def Let_def
    using clamp_unit by (intro hermite_mono) simp_all
qed

lemma smoothstep_low:
  assumes "a < b" "x \<le> a"
  shows "smoothstep a b x = 0"
proof -
  have "(x - a) / (b - a) \<le> 0"
    using assms by (simp add: divide_nonpos_pos)
  then have "clamp ((x - a) / (b - a)) 0 1 = 0"
    by (simp add: clamp_def)
  then show ?thesis
    by (simp add: smoothstep_def)
qed

lemma smoothstep_high:
  assumes "a < b" "b \<le> x"
  shows "smoothstep a b x = 1"
proof -
  have "1 \<le> (x - a) / (b - a)"
    using assms by simp
  then have "clamp ((x - a) / (b - a)) 0 1 = 1"
    by (simp add: clamp_def)
  then show ?thesis
    by (simp add: smoothstep_def)
qed

text \<open>
  C9. For all \<open>a < b\<close>, \<open>smoothstep a b\<close> is monotonic non-decreasing on \<open>[a, b]\<close>,
  is exactly 0 at every argument up to \<open>a\<close> and exactly 1 at every argument from
  \<open>b\<close> on.
\<close>

theorem smoothstep_properties:
  assumes "a < b"
  shows "(a \<le> x \<and> x \<le> y \<and> y \<le> b \<longrightarrow> smoothstep a b x \<le> smoothstep a b y) \<and>
         (u \<le> a \<longrightarrow> smoothstep a b u = 0) \<and>
         (b \<le> v \<longrightarrow> smoothstep a b v = 1)"
  using smoothstep_mono [OF assms] smoothstep_low [OF assms] smoothstep_high [OF assms]
  by blast

text \<open>The theorem on the box ramp, \<open>a = 0.1\<close> and \<open>b = 0.3\<close>.\<close>

theorem smoothstep_properties_witness:
  "(0.1::real) < 0.3 \<and>
   smoothstep 0.1 0.3 0.15 \<le> smoothstep 0.1 0.3 0.25 \<and>
   smoothstep 0.1 0.3 0.05 = 0 \<and> smoothstep 0.1 0.3 0.4 = 1"
proof -
  have h: "(0.1::real) < 0.3" by simp
  show ?thesis
    using h smoothstep_properties [OF h, of "0.15" "0.25" "0.05" "0.4"] by simp
qed

section \<open>Morph positions at the ends of the stages\<close>

lemma smoothstep_box_end: "smoothstep 0.1 0.3 0.3 = 1"
  by (simp add: smoothstep_def clamp_def)

lemma smoothstep_brain_start: "smoothstep 0.5 0.7 0.3 = 0"
  by (simp add: smoothstep_def clamp_def)

lemma smoothstep_box_late: "smoothstep 0.1 0.3 0.7 = 1"
  by (simp add: smoothstep_def clamp_def)

lemma smoothstep_brain_end: "smoothstep 0.5 0.7 0.7 = 1"
  by (simp add: smoothstep_def clamp_def)

lemma mix3_zero: "mix3 p q 0 = p"
  by (cases p, cases q) (simp add: mix_def)

lemma mix3_one: "mix3 p q 1 = q"
  by (cases p, cases q) (simp add: mix_def)

lemma shader_pos_box:
  "pos (vertexShader mv pr 0.3 uTime position (bx, by, bz) aBrain aOffset) =
     (bx + cos (uTime + aOffset) * 0.01, by + sin (uTime * 1.5 + aOffset) * 0.02, bz)"
  by (simp add: vertexShader_def Let_def smoothstep_def clamp_def mix3_zero mix3_one
      split: prod.splits)

lemma shader_pos_brain:
  "pos (vertexShader mv pr 0.7 uTime position aBox (cx, cy, cz) aOffset) =
     (cx + cos (uTime + aOffset) * 0.01, cy + sin (uTime * 1.5 + aOffset) * 0.02, cz)"
  by (simp add: vertexShader_def Let_def smoothstep_def clamp_def mix3_one split: prod.splits)

text \<open>
  C2 (amended). At scroll 0.3 the weights are \<open>t1 = 1\<close> and \<open>t2 = 0\<close>, and the two
  nested blends give the box target exactly; at scroll 0.7, \<open>t2 = 1\<close> and the second
  blend gives the brain target whatever the first blend produced. The position the
  shader renders is that target plus the floating offset, which at \<open>t1 = 1\<close> keeps a
  tenth of its amplitude: \<open>0.01 * cos (uTime + aOffset)\<close> in x and
  \<open>0.02 * sin (1.5 * uTime + aOffset)\<close> in y.
\<close>

theorem shader_stage_ends:
  "smoothstep 0.1 0.3 0.3 = 1 \<and> smoothstep 0.5 0.7 0.3 = 0 \<and>
   mix3 (mix3 position aBox (smoothstep 0.1 0.3 0.3)) aBrain (smoothstep 0.5 0.7 0.3) = aBox \<and>
   pos (vertexShader mv pr 0.3 uTime position (bx, by, bz) aBrain aOffset) =
     (bx + cos (uTime + aOffset) * 0.01, by + sin (uTime * 1.5 + aOffset) * 0.02, bz) \<and>
   smoothstep 0.5 0.7 0.7 = 1 \<and>
   mix3 p aBrain (smoothstep 0.5 0.7 0.7) = aBrain \<and>
   pos (vertexShader mv pr 0.7 uTime position aBox (cx, cy, cz) aOffset) =
     (cx + cos (uTime + aOffset) * 0.01, cy + sin (uTime * 1.5 + aOffset) * 0.02, cz)"
  by (simp only: smoothstep_box_end smoothstep_brain_start smoothstep_brain_end mix3_zero
      mix3_one shader_pos_box shader_pos_brain simp_thms)

text \<open>
  C2 as stated has the rendered position equal to the target exactly. At time 0 with
  phase offset 0 the rendered x is the target's x plus 0.01, at scroll 0.3 and at 0.7.
\<close>

theorem shader_position_counterexample:
  "pos (vertexShader id id 0.3 0 (0, 0, 0) (1, 1, 1) (2, 2, 2) 0) = (1.01, 1, 1) \<and>
   pos (vertexShader id id 0.3 0 (0, 0, 0) (1, 1, 1) (2, 2, 2) 0) \<noteq> (1, 1, 1) \<and>
   pos (vertexShader id id 0.7 0 (0, 0, 0) (1, 1, 1) (2, 2, 2) 0) = (2.01, 2, 2) \<and>
   pos (vertexShader id id 0.7 0 (0, 0, 0) (1, 1, 1) (2, 2, 2) 0) \<noteq> (2, 2, 2)"
  by (simp add: shader_pos_box shader_pos_brain)

section \<open>Rotation of the box against the particle group\<close>

text \<open>
  In every frame the two tilts (x) agree, and the particle group's rotation about the
  vertical axis is the box's plus the time-driven spin \<open>0.05 * elapsedTime\<close>.
\<close>

lemma rotation_difference:
  "group_rotation_x (fst (render_frame t s d)) = box_rotation_x (fst (snd (render_frame t s d))) \<and>
   group_rotation_y (fst (render_frame t s d)) =
     box_rotation_y (fst (snd (render_frame t s d))) + t * 0.05"
  by (simp add: render_frame_def ParticleSystem_useFrame_def BlackBox_useFrame_def Let_def)

text \<open>
  C3. The claim has both rotations of the box equal to the particle group's, the
  time-driven spin included. One second in, at scroll 0 and with no drag, the particle
  group is turned by 0.05 about the vertical axis and the box by 0.
\<close>

theorem rotation_desync_after_one_second:
  "group_rotation_y (fst (render_frame 1 0 drag_init)) = 0.05 \<and>
   box_rotation_y (fst (snd (render_frame 1 0 drag_init))) = 0 \<and>
   group_rotation_x (fst (render_frame 1 0 drag_init)) = 0 \<and>
   box_rotation_x (fst (snd (render_frame 1 0 drag_init))) = 0"
  using PITCH_LIMIT_nonneg
  by (simp add: render_frame_def ParticleSystem_useFrame_def BlackBox_useFrame_def Let_def
      advanceDragInertia_def drag_init_def)

section \<open>Opacity of the box\<close>

lemma BlackBox_opacity_cases:
  "BlackBox_opacity s =
     (if s \<le> 0.1 then 0
      else if s \<le> 0.3 then (s - 0.1) / 0.2
      else if s \<le> 0.4 then 1
      else if s \<le> 0.5 then 1 - (s - 0.4) / 0.1
      else 0)"
  by (simp add: BlackBox_opacity_def)

lemma BlackBox_opacity_closed_form:
  "BlackBox_opacity s = max 0 (min 1 (min ((s - 0.1) / 0.2) (1 - (s - 0.4) / 0.1)))"
  unfolding BlackBox_opacity_def by (simp add: max_def min_def field_simps)

lemma BlackBox_opacity_continuous: "continuous_on A BlackBox_opacity"
proof -
  have eq: "BlackBox_opacity = (\<lambda>s. max 0 (min 1 (min ((s - 0.1) / 0.2) (1 - (s - 0.4) / 0.1))))"
    by (rule ext) (rule BlackBox_opacity_closed_form)
  show ?thesis
    unfolding eq by (intro continuous_intros) simp_all
qed

text \<open>
  C5. The box's opacity is 0 up to scroll 0.1, \<open>(s - 0.1) / 0.2\<close> on \<open>(0.1, 0.3]\<close>,
  1 on \<open>(0.3, 0.4]\<close>, \<open>1 - (s - 0.4) / 0.1\<close> on \<open>(0.4, 0.5]\<close> and 0 beyond; it is
  continuous on \<open>[0, 1]\<close>, exactly 0 at 0 and at 1, and exactly 1 on \<open>[0.3, 0.4]\<close>.
\<close>

theorem BlackBox_opacity_profile:
  "BlackBox_opacity s =
     (if s \<le> 0.1 then 0
      else if s \<le> 0.3 then (s - 0.1) / 0.2
      else if s \<le> 0.4 then 1
      else if s \<le> 0.5 then 1 - (s - 0.4) / 0.1
      else 0) \<and>
   continuous_on {0..1} BlackBox_opacity \<and>
   BlackBox_opacity 0 = 0 \<and> BlackBox_opacity 1 = 0 \<and>
   (0.3 \<le> u \<and> u \<le> 0.4 \<longrightarrow> BlackBox_opacity u = 1)"
proof -
  have "BlackBox_opacity u = 1" if "0.3 \<le> u" "u \<le> 0.4"
    using that by (simp add: BlackBox_opacity_def)
  moreover have "BlackBox_opacity 0 = 0" "BlackBox_opacity 1 = 0"
    by (simp_all add: BlackBox_opacity_def)
  ultimately show ?thesis
    using BlackBox_opacity_cases [of s] BlackBox_opacity_continuous [of "{0..1}"] by blast
qed

text \<open>The theorem at scroll values in each of the five pieces and at the joints.\<close>

theorem BlackBox_opacity_profile_witness:
  "BlackBox_opacity 0.05 = 0 \<and> BlackBox_opacity 0.2 = 0.5 \<and> BlackBox_opacity 0.3 = 1 \<and>
   BlackBox_opacity 0.35 = 1 \<and> BlackBox_opacity 0.4 = 1 \<and> BlackBox_opacity 0.45 = 0.5 \<and>
   BlackBox_opacity 0.75 = 0"
proof -
  have a: "BlackBox_opacity 0.05 = 0"
    using BlackBox_opacity_profile [of "0.05" "0.3"] by simp
  have b: "BlackBox_opacity 0.2 = 0.5"
    using BlackBox_opacity_profile [of "0.2" "0.3"] by simp
  have c: "BlackBox_opacity 0.3 = 1"
    using BlackBox_opacity_profile [of "0.3" "0.3"] by simp
  have d: "BlackBox_opacity 0.35 = 1"
    using BlackBox_opacity_profile [of "0.35" "0.35"] by simp
  have e: "BlackBox_opacity 0.4 = 1"
    using BlackBox_opacity_profile [of "0.4" "0.4"] by simp
  have f: "BlackBox_opacity 0.45 = 0.5"
    using BlackBox_opacity_profile [of "0.45" "0.3"] by simp
  have g: "BlackBox_opacity 0.75 = 0"
    using BlackBox_opacity_profile [of "0.75" "0.3"] by simp
  show ?thesis
    using a b c d e f g by simp
qed

section \<open>Rejection sampling: what a returned candidate satisfies\<close>

lemma attempt_Some:
  assumes "attempt rng k = (Some c, k')"
  shows "c = ((rng k - 0.5) * 2, (rng (k + 1) - 0.5) * 2, (rng (k + 2) - 0.5) * 2) \<and>
         shape_ok ((rng k - 0.5) * 2) ((rng (k + 1) - 0.5) * 2) ((rng (k + 2) - 0.5) * 2)"
proof -
  define x where "x = (rng k - 0.5) * 2"
  define y where "y = (rng (k + 1) - 0.5) * 2"
  define z where "z = (rng (k + 2) - 0.5) * 2"
  note defs = x_def [symmetric] y_def [symmetric] z_def [symmetric]
  from assms have ell: "\<not> (x * x) + (y * y) * 1.4 + (z * z) * 1.2 > 1.0"
    unfolding attempt_def Let_def defs by (auto split: if_splits)
  from assms ell have cut: "\<not> fst (bottom_front rng (k + 3) x y)"
    unfolding attempt_def Let_def defs by (auto split: if_splits prod.splits)
  from assms ell cut have noise:
    "\<not> sin (x * 12 + cos (y * 12)) * cos (y * 12 + sin (z * 12)) * sin (z * 12 + cos (x * 12)) > 0.25"
    unfolding attempt_def Let_def defs by (auto split: if_splits prod.splits)
  from assms ell cut noise have fis: "\<not> \<bar>z\<bar> < 0.04"
    unfolding attempt_def Let_def defs by (auto split: if_splits prod.splits)
  from assms ell cut noise fis have c: "c = (x, y, z)"
    unfolding attempt_def Let_def defs by (auto split: if_splits prod.splits)
  from cut have hard: "\<not> (y < - 0.2 \<and> x > - 0.2 \<and> y < - 0.4)"
    by (auto simp add: bottom_front_def split: if_splits)
  have "shape_ok x y z"
    unfolding shape_ok_def using ell noise fis hard
    by (simp add: power2_eq_square mult.commute)
  with c show ?thesis
    unfolding x_def y_def z_def by simp
qed

lemma unit_range_cube:
  assumes "unit_range rng"
  shows "- 1 \<le> (rng k - 0.5) * 2 \<and> (rng k - 0.5) * 2 \<le> 1"
proof -
  have "0 \<le> rng k" "rng k < 1"
    using assms by (simp_all add: unit_range_def)
  then show ?thesis by simp
qed

section \<open>Rejection sampling: the loop has no bound\<close>

lemma brain_loop_accept: "attempt rng k = (Some c, k') \<Longrightarrow> brain_loop rng k = Some (c, k')"
  by (subst brain_loop.simps) simp

lemma brain_loop_reject: "attempt rng k = (None, k') \<Longrightarrow> brain_loop rng k = brain_loop rng k'"
  by (subst brain_loop.simps) simp

lemma cursor_after_shift:
  "cursor_after rng k (Suc n) = cursor_after rng (snd (attempt rng k)) n"
  by (induction n) simp_all

lemma brain_loop_after_rejections:
  assumes "\<forall>m<n. fst (attempt rng (cursor_after rng k m)) = None"
  shows "brain_loop rng k = brain_loop rng (cursor_after rng k n)"
  using assms
proof (induction n arbitrary: k)
  case 0
  then show ?case by simp
next
  case (Suc n)
  have first: "fst (attempt rng k) = None"
    using Suc.prems by (metis cursor_after.simps(1) zero_less_Suc)
  then have "attempt rng k = (None, snd (attempt rng k))"
    by (metis prod.collapse)
  then have step: "brain_loop rng k = brain_loop rng (snd (attempt rng k))"
    by (rule brain_loop_reject)
  have "\<forall>m<n. fst (attempt rng (cursor_after rng (snd (attempt rng k)) m)) = None"
  proof (intro allI impI)
    fix m assume "m < n"
    then have "fst (attempt rng (cursor_after rng k (Suc m))) = None"
      using Suc.prems by (metis Suc_less_eq)
    then show "fst (attempt rng (cursor_after rng (snd (attempt rng k)) m)) = None"
      by (simp only: cursor_after_shift)
  qed
  then have "brain_loop rng (snd (attempt rng k)) =
      brain_loop rng (cursor_after rng (snd (attempt rng k)) n)"
    by (rule Suc.IH)
  with step show ?case
    by (simp only: cursor_after_shift)
qed

lemma brain_loop_first_accepted:
  assumes "\<forall>m<n. fst (attempt rng (cursor_after rng k m)) = None"
    and "attempt rng (cursor_after rng k n) = (Some c, k')"
  shows "brain_loop rng k = Some (c, k')"
  using brain_loop_after_rejections [OF assms(1)] brain_loop_accept [OF assms(2)] by simp

lemma brain_loop_Some_first_accepted:
  assumes "brain_loop rng k = Some r"
  shows "\<exists>n. (\<forall>m<n. fst (attempt rng (cursor_after rng k m)) = None) \<and>
             attempt rng (cursor_after rng k n) = (Some (fst r), snd r)"
  using assms
proof (induction rule: brain_loop.raw_induct [rotated 1, consumes 1])
  case (1 loop rng k r)
  show ?case
  proof (cases "fst (attempt rng k)")
    case None
    then obtain k1 where att: "attempt rng k = (None, k1)"
      by (metis prod.collapse)
    then have k1: "snd (attempt rng k) = k1"
      by simp
    from 1(2) have "loop rng (snd (attempt rng k)) = Some r"
      unfolding att by simp
    then obtain n where n:
      "\<forall>m<n. fst (attempt rng (cursor_after rng (snd (attempt rng k)) m)) = None"
      "attempt rng (cursor_after rng (snd (attempt rng k)) n) = (Some (fst r), snd r)"
      using 1(1) by blast
    have "\<forall>m<Suc n. fst (attempt rng (cursor_after rng k m)) = None"
    proof (intro allI impI)
      fix m assume m: "m < Suc n"
      show "fst (attempt rng (cursor_after rng k m)) = None"
      proof (cases m)
        case 0
        then show ?thesis using None by simp
      next
        case (Suc m')
        then have "m' < n" using m by simp
        then show ?thesis
          using n(1) Suc by (simp only: cursor_after_shift)
      qed
    qed
    moreover have "attempt rng (cursor_after rng k (Suc n)) = (Some (fst r), snd r)"
      using n(2) by (simp only: cursor_after_shift)
    ultimately show ?thesis by blast
  next
    case (Some c)
    then obtain k1 where att: "attempt rng k = (Some c, k1)"
      by (metis prod.collapse)
    from 1(2) have "r = (c, k1)"
      unfolding att by simp
    then have "attempt rng (cursor_after rng k 0) = (Some (fst r), snd r)"
      using att by simp
    then show ?thesis by blast
  qed
qed

text \<open>
  C4 (amended). The sampling loop has no retry cap and no fallback. It returns a candidate
  exactly when some pass through its body accepts one, and then it returns the first
  accepted candidate, after however many rejected passes came before: for every \<open>n\<close>, a
  run with \<open>n\<close> rejections followed by an acceptance returns after \<open>n\<close> redraws.
\<close>

theorem brain_loop_unbounded:
  "brain_loop rng k = Some (c, k') \<longleftrightarrow>
     (\<exists>n. (\<forall>m<n. fst (attempt rng (cursor_after rng k m)) = None) \<and>
          attempt rng (cursor_after rng k n) = (Some c, k'))"
proof
  assume "brain_loop rng k = Some (c, k')"
  from brain_loop_Some_first_accepted [OF this] show
    "\<exists>n. (\<forall>m<n. fst (attempt rng (cursor_after rng k m)) = None) \<and>
         attempt rng (cursor_after rng k n) = (Some c, k')"
    by simp
next
  assume "\<exists>n. (\<forall>m<n. fst (attempt rng (cursor_after rng k m)) = None) \<and>
      attempt rng (cursor_after rng k n) = (Some c, k')"
  then show "brain_loop rng k = Some (c, k')"
    using brain_loop_first_accepted by blast
qed

lemma attempt_accept_after:
  "attempt (rng_accept_after m) m = (Some (0, 0, - (1 / 12)), m + 3)"
  by (simp add: attempt_def rng_accept_after_def bottom_front_def cerebellum_gap_def Let_def)

lemma attempt_reject_before:
  "k + 3 \<le> m \<Longrightarrow> attempt (rng_accept_after m) k = (None, k + 3)"
  by (simp add: attempt_def rng_accept_after_def Let_def)

text \<open>The theorem on a random source whose first two candidates are rejected.\<close>

theorem brain_loop_unbounded_witness:
  "attempt (rng_accept_after 6) 0 = (None, 3) \<and>
   attempt (rng_accept_after 6) 3 = (None, 6) \<and>
   attempt (rng_accept_after 6) 6 = (Some (0, 0, - (1 / 12)), 9) \<and>
   brain_loop (rng_accept_after 6) 0 = Some ((0, 0, - (1 / 12)), 9)"
proof -
  have a0: "attempt (rng_accept_after 6) 0 = (None, 3)"
    using attempt_reject_before [of 0 6] by simp
  have a1: "attempt (rng_accept_after 6) 3 = (None, 6)"
    using attempt_reject_before [of 3 6] by simp
  have a2: "attempt (rng_accept_after 6) 6 = (Some (0, 0, - (1 / 12)), 9)"
    using attempt_accept_after [of 6] by simp
  have c0: "cursor_after (rng_accept_after 6) 0 0 = 0"
    by simp
  have c1: "cursor_after (rng_accept_after 6) 0 (Suc 0) = 3"
    by (simp add: a0)
  have c2: "cursor_after (rng_accept_after 6) 0 (Suc (Suc 0)) = 6"
    by (simp add: a0 a1)
  have rej: "\<forall>m<Suc (Suc 0). fst (attempt (rng_accept_after 6) (cursor_after (rng_accept_after 6) 0 m)) = None"
  proof (intro allI impI)
    fix m :: nat assume "m < Suc (Suc 0)"
    then have "m = 0 \<or> m = Suc 0" by auto
    then show "fst (attempt (rng_accept_after 6) (cursor_after (rng_accept_after 6) 0 m)) = None"
      using a0 a1 c1 by auto
  qed
  have acc: "attempt (rng_accept_after 6) (cursor_after (rng_accept_after 6) 0 (Suc (Suc 0)))
      = (Some (0, 0, - (1 / 12)), 9)"
    unfolding c2 by (rule a2)
  have "brain_loop (rng_accept_after 6) 0 = Some ((0, 0, - (1 / 12)), 9)"
    using brain_loop_unbounded [of "rng_accept_after 6" 0 "(0, 0, - (1 / 12))" 9] rej acc
    by blast
  with a0 a1 a2 show ?thesis by simp
qed

lemma attempt_rng_zero: "attempt rng_zero k = (None, k + 3)"
  by (simp add: attempt_def rng_zero_def Let_def)

lemma brain_loop_rng_zero: "brain_loop rng_zero k = None"
proof (cases "brain_loop rng_zero k")
  case None
  then show ?thesis .
next
  case (Some r)
  from brain_loop_Some_first_accepted [OF this] show ?thesis
    by (simp add: attempt_rng_zero)
qed

text \<open>
  C4 as stated has the loop stop after a fixed number of redraws and fall back. With
  every random number 0 each candidate is \<open>(-1, -1, -1)\<close>, outside the ellipsoid: the
  loop never returns, and neither does the generation of the first particle's targets.
\<close>

theorem unbounded_loop_counterexample:
  "brain_loop rng_zero 0 = None \<and> positions rng_zero 1 = None"
  by (simp add: brain_loop_rng_zero positions_def particle_body_def Let_def)

section \<open>Rejection sampling: every stored brain target\<close>

lemma brain_loop_shape:
  assumes "brain_loop rng k = Some ((x, y, z), k')" and "unit_range rng"
  shows "- 1 \<le> x \<and> x \<le> 1 \<and> - 1 \<le> y \<and> y \<le> 1 \<and> - 1 \<le> z \<and> z \<le> 1 \<and> shape_ok x y z"
proof -
  from brain_loop_Some_first_accepted [OF assms(1)]
  obtain j where "attempt rng j = (Some (x, y, z), k')"
    by auto
  from attempt_Some [OF this]
  have c: "x = (rng j - 0.5) * 2" "y = (rng (j + 1) - 0.5) * 2" "z = (rng (j + 2) - 0.5) * 2"
    and ok: "shape_ok ((rng j - 0.5) * 2) ((rng (j + 1) - 0.5) * 2) ((rng (j + 2) - 0.5) * 2)"
    by simp_all
  show ?thesis
    unfolding c
    using unit_range_cube [OF assms(2), of j] unit_range_cube [OF assms(2), of "j + 1"]
      unit_range_cube [OF assms(2), of "j + 2"] ok
    by simp
qed

lemma particle_body_brain:
  assumes "particle_body rng i (st, k) = Some (st', k')"
  shows "\<exists>x y z k1. brain_loop rng (k + 6) = Some ((x, y, z), k1) \<and>
           brain st' = (brain st)[i * 3 := x * 5.5, i * 3 + 1 := y * 5.0, i * 3 + 2 := z * 4.5]"
  using assms
  by (auto simp add: particle_body_def Let_def split: option.splits prod.splits)

text \<open>Writing the three targets of particle \<open>j\<close> leaves those of the earlier particles alone.\<close>

lemma target_kept:
  assumes "i < j"
  shows "b[j * 3 := u, j * 3 + 1 := v, j * 3 + 2 := w] ! (i * 3) = b ! (i * 3) \<and>
         b[j * 3 := u, j * 3 + 1 := v, j * 3 + 2 := w] ! (i * 3 + 1) = b ! (i * 3 + 1) \<and>
         b[j * 3 := u, j * 3 + 1 := v, j * 3 + 2 := w] ! (i * 3 + 2) = b ! (i * 3 + 2)"
  using assms by simp

lemma target_written:
  assumes "j * 3 + 2 < length b"
  shows "b[j * 3 := u, j * 3 + 1 := v, j * 3 + 2 := w] ! (j * 3) = u \<and>
         b[j * 3 := u, j * 3 + 1 := v, j * 3 + 2 := w] ! (j * 3 + 1) = v \<and>
         b[j * 3 := u, j * 3 + 1 := v, j * 3 + 2 := w] ! (j * 3 + 2) = w"
  using assms by simp

lemma positions_upto_targets:
  assumes "unit_range rng"
  shows "j \<le> n \<Longrightarrow> positions_upto rng n j = Some (st, k) \<Longrightarrow>
         length (brain st) = n * 3 \<and>
         (\<forall>i<j. \<exists>x y z. brain st ! (i * 3) = x * 5.5 \<and> brain st ! (i * 3 + 1) = y * 5.0 \<and>
                   brain st ! (i * 3 + 2) = z * 4.5 \<and>
                   - 1 \<le> x \<and> x \<le> 1 \<and> - 1 \<le> y \<and> y \<le> 1 \<and> - 1 \<le> z \<and> z \<le> 1 \<and>
                   shape_ok x y z)"
proof (induction j arbitrary: st k)
  case 0
  then have "st = empty_table n" by simp
  then show ?case
    by (simp add: empty_table_def Float32Array_def)
next
  case (Suc j)
  from Suc.prems(2) obtain st0 k0 where
    prev: "positions_upto rng n j = Some (st0, k0)" and
    body: "particle_body rng j (st0, k0) = Some (st, k)"
    by (auto split: option.splits)
  from Suc.IH [OF _ prev] Suc.prems(1) have
    len0: "length (brain st0) = n * 3" and
    old: "\<forall>i<j. \<exists>x y z. brain st0 ! (i * 3) = x * 5.5 \<and> brain st0 ! (i * 3 + 1) = y * 5.0 \<and>
                   brain st0 ! (i * 3 + 2) = z * 4.5 \<and>
                   - 1 \<le> x \<and> x \<le> 1 \<and> - 1 \<le> y \<and> y \<le> 1 \<and> - 1 \<le> z \<and> z \<le> 1 \<and>
                   shape_ok x y z"
    by simp_all
  from particle_body_brain [OF body] obtain x y z k1 where
    loop: "brain_loop rng (k0 + 6) = Some ((x, y, z), k1)" and
    br: "brain st = (brain st0)[j * 3 := x * 5.5, j * 3 + 1 := y * 5.0, j * 3 + 2 := z * 4.5]"
    by blast
  have shape: "- 1 \<le> x \<and> x \<le> 1 \<and> - 1 \<le> y \<and> y \<le> 1 \<and> - 1 \<le> z \<and> z \<le> 1 \<and> shape_ok x y z"
    by (rule brain_loop_shape [OF loop assms])
  have inrange: "j * 3 + 2 < length (brain st0)"
    using Suc.prems(1) len0 by simp
  have len: "length (brain st) = n * 3"
    using br len0 by simp
  have "\<exists>x y z. brain st ! (i * 3) = x * 5.5 \<and> brain st ! (i * 3 + 1) = y * 5.0 \<and>
                   brain st ! (i * 3 + 2) = z * 4.5 \<and>
                   - 1 \<le> x \<and> x \<le> 1 \<and> - 1 \<le> y \<and> y \<le> 1 \<and> - 1 \<le> z \<and> z \<le> 1 \<and>
                   shape_ok x y z" if "i < Suc j" for i
  proof (cases "i = j")
    case True
    show ?thesis
      unfolding br True using target_written [OF inrange] shape by blast
  next
    case False
    then have "i < j" using that by simp
    then show ?thesis
      unfolding br using target_kept [of i j] old by simp
  qed
  with len show ?case by blast
qed

text \<open>
  C1. When \<open>positions\<close> returns its arrays, the brain target of every particle \<open>i\<close> is
  a candidate \<open>(x, y, z)\<close> of \<open>[-1, 1]\<close> cubed, scaled by 5.5, 5.0 and 4.5, that
  lies in the ellipsoid \<open>x\<^sup>2 + 1.4 y\<^sup>2 + 1.2 z\<^sup>2 \<le> 1\<close>, has \<open>\<bar>z\<bar> \<ge> 0.04\<close>, is not in the
  hard bottom-front cut and has fold noise at most 0.25.
\<close>

theorem brain_targets_accepted:
  assumes "positions rng n = Some t" and "unit_range rng" and "i < n"
  shows "\<exists>x y z. brain t ! (i * 3) = x * 5.5 \<and> brain t ! (i * 3 + 1) = y * 5.0 \<and>
           brain t ! (i * 3 + 2) = z * 4.5 \<and>
           - 1 \<le> x \<and> x \<le> 1 \<and> - 1 \<le> y \<and> y \<le> 1 \<and> - 1 \<le> z \<and> z \<le> 1 \<and>
           x\<^sup>2 + 1.4 * y\<^sup>2 + 1.2 * z\<^sup>2 \<le> 1.0 \<and>
           \<bar>z\<bar> \<ge> 0.04 \<and>
           \<not> (y < - 0.2 \<and> x > - 0.2 \<and> y < - 0.4) \<and>
           sin (12 * x + cos (12 * y)) * cos (12 * y + sin (12 * z)) * sin (12 * z + cos (12 * x))
             \<le> 0.25"
proof -
  from assms(1) obtain k where "positions_upto rng n n = Some (t, k)"
    by (auto simp add: positions_def)
  from positions_upto_targets [OF assms(2) _ this] assms(3)
  show ?thesis
    unfolding shape_ok_def by simp
qed

lemma unit_range_accept_after: "unit_range (rng_accept_after m)"
  by (simp add: unit_range_def rng_accept_after_def)

lemma positions_accept_after:
  "positions (rng_accept_after 6) 1 =
     Some \<lparr>random = [- 25, - 25, - 25], box = [- 2.55, - 2.55, - 2.55],
           brain = [0, 0, - 0.375], randomOffsets = [pi]\<rparr>"
proof -
  have loop: "brain_loop (rng_accept_after 6) (0 + 6) = Some ((0, 0, - (1 / 12)), 9)"
    using brain_loop_accept [OF attempt_accept_after [of 6]] by simp
  have "particle_body (rng_accept_after 6) 0 (empty_table 1, 0) =
      Some (\<lparr>random = [- 25, - 25, - 25], box = [- 2.55, - 2.55, - 2.55],
           brain = [0, 0, - 0.375], randomOffsets = [pi]\<rparr>, 10)"
    unfolding particle_body_def Let_def prod.case loop option.case
    by (simp add: empty_table_def Float32Array_def rng_accept_after_def numeral_3_eq_3)
  then show ?thesis
    by (simp add: positions_def)
qed

text \<open>The theorem for one particle, on a random source whose first candidate is accepted.\<close>

theorem brain_targets_accepted_witness:
  "unit_range (rng_accept_after 6) \<and>
   positions (rng_accept_after 6) 1 =
     Some \<lparr>random = [- 25, - 25, - 25], box = [- 2.55, - 2.55, - 2.55],
           brain = [0, 0, - 0.375], randomOffsets = [pi]\<rparr> \<and>
   (\<exists>x y z :: real. [0, 0, - 0.375] ! (0 * 3) = x * 5.5 \<and> [0, 0, - 0.375] ! (0 * 3 + 1) = y * 5.0 \<and>
           [0, 0, - 0.375] ! (0 * 3 + 2) = z * 4.5 \<and>
           - 1 \<le> x \<and> x \<le> 1 \<and> - 1 \<le> y \<and> y \<le> 1 \<and> - 1 \<le> z \<and> z \<le> 1 \<and>
           x\<^sup>2 + 1.4 * y\<^sup>2 + 1.2 * z\<^sup>2 \<le> 1.0 \<and>
           \<bar>z\<bar> \<ge> 0.04 \<and>
           \<not> (y < - 0.2 \<and> x > - 0.2 \<and> y < - 0.4) \<and>
           sin (12 * x + cos (12 * y)) * cos (12 * y + sin (12 * z)) * sin (12 * z + cos (12 * x))
             \<le> 0.25)"
proof -
  have one: "(0::nat) < 1" by simp
  note th = brain_targets_accepted [OF positions_accept_after unit_range_accept_after one]
  have "brain \<lparr>random = [- 25, - 25, - 25], box = [- 2.55, - 2.55, - 2.55],
           brain = [0, 0, - 0.375], randomOffsets = [pi]\<rparr> = [0, 0, - 0.375]"
    by simp
  with th have "\<exists>x y z :: real. [0, 0, - 0.375] ! (0 * 3) = x * 5.5 \<and> [0, 0, - 0.375] ! (0 * 3 + 1) = y * 5.0 \<and>
           [0, 0, - 0.375] ! (0 * 3 + 2) = z * 4.5 \<and>
           - 1 \<le> x \<and> x \<le> 1 \<and> - 1 \<le> y \<and> y \<le> 1 \<and> - 1 \<le> z \<and> z \<le> 1 \<and>
           x\<^sup>2 + 1.4 * y\<^sup>2 + 1.2 * z\<^sup>2 \<le> 1.0 \<and>
           \<bar>z\<bar> \<ge> 0.04 \<and>
           \<not> (y < - 0.2 \<and> x > - 0.2 \<and> y < - 0.4) \<and>
           sin (12 * x + cos (12 * y)) * cos (12 * y + sin (12 * z)) * sin (12 * z + cos (12 * x))
             \<le> 0.25"
    by (simp only:)
  then show ?thesis
    using unit_range_accept_after positions_accept_after by blast
qed

section \<open>Mesh asset without a mesh\<close>

lemma replicate_update_same: "(replicate m x)[i := x] = replicate m x"
  by (cases "i < m") (simp_all add: list_eq_iff_nth_eq nth_list_update)

lemma read_at_zeros: "i < m \<Longrightarrow> read_at (replicate m 0) i = Some 0"
  by (simp add: read_at_def)

lemma mesh_particle_body_zero:
  assumes "j < n" and "brain st = replicate (n * 3) 0"
  shows "\<exists>st'. mesh_particle_body rng (replicate (n * 3) 0) j (st, k) = Some (st', k + 7) \<and>
          brain st' = replicate (n * 3) 0"
proof -
  have r: "read_at (replicate (n * 3) 0) (j * 3) = Some 0"
      "read_at (replicate (n * 3) 0) (j * 3 + 1) = Some 0"
      "read_at (replicate (n * 3) 0) (j * 3 + 2) = Some 0"
    using assms(1) by (simp_all add: read_at_zeros)
  show ?thesis
    unfolding mesh_particle_body_def Let_def prod.case r option.case
    by (simp add: assms(2) replicate_update_same)
qed

lemma mesh_positions_upto_zero:
  "j \<le> n \<Longrightarrow>
   \<exists>st. mesh_positions_upto rng (replicate (n * 3) 0) n j = Some (st, 7 * j) \<and>
        brain st = replicate (n * 3) 0"
proof (induction j)
  case 0
  then show ?case
    by (simp add: empty_table_def Float32Array_def)
next
  case (Suc j)
  then obtain st where
    prev: "mesh_positions_upto rng (replicate (n * 3) 0) n j = Some (st, 7 * j)" and
    br: "brain st = replicate (n * 3) 0"
    by auto
  have "j < n" using Suc.prems by simp
  from mesh_particle_body_zero [OF this br, of rng "7 * j"] show ?case
    by (simp add: prev add.commute)
qed

lemma no_mesh_find: "\<forall>obj\<in>set scene. \<not> isMesh obj \<Longrightarrow> find isMesh scene = None"
  by (simp add: find_None_iff)

text \<open>
  C8. When no object of the scene is a mesh, \<open>useBrainTargets\<close> returns a zero-filled
  array of length \<open>3 n\<close> and logs one warning; it does not fail. The particle system
  then builds its arrays from these targets, and its brain targets are all zero.
\<close>

theorem no_mesh_fallback:
  assumes "\<forall>obj\<in>set scene. \<not> isMesh obj"
  shows "useBrainTargets sample scene n = (replicate (n * 3) 0, [no_mesh_warning]) \<and>
         (\<exists>t. BrainParticleSystem sample scene rng n = (Some t, [no_mesh_warning]) \<and>
              brain t = replicate (n * 3) 0)"
proof -
  have u: "useBrainTargets sample scene n = (replicate (n * 3) 0, [no_mesh_warning])"
    by (simp add: useBrainTargets_def no_mesh_find [OF assms] Float32Array_def)
  obtain st where "mesh_positions_upto rng (replicate (n * 3) 0) n n = Some (st, 7 * n)"
      and "brain st = replicate (n * 3) 0"
    using mesh_positions_upto_zero [of n n rng] by auto
  then have "BrainParticleSystem sample scene rng n = (Some st, [no_mesh_warning]) \<and>
      brain st = replicate (n * 3) 0"
    by (simp add: BrainParticleSystem_def u mesh_positions_def)
  with u show ?thesis by blast
qed

text \<open>The theorem on a scene of two objects that are not meshes, for two particles.\<close>

theorem no_mesh_fallback_witness:
  "\<not> (\<exists>obj\<in>set scene_without_mesh. isMesh obj) \<and>
   useBrainTargets sample_origin scene_without_mesh 2 = ([0, 0, 0, 0, 0, 0], [no_mesh_warning]) \<and>
   (\<exists>t. BrainParticleSystem sample_origin scene_without_mesh rng_zero 2 = (Some t, [no_mesh_warning]) \<and>
        brain t = [0, 0, 0, 0, 0, 0])"
proof -
  have h: "\<forall>obj\<in>set scene_without_mesh. \<not> isMesh obj"
    by (simp add: scene_without_mesh_def)
  have r: "replicate (2 * 3) (0::real) = [0, 0, 0, 0, 0, 0]"
    by (simp add: numeral_eq_Suc)
  show ?thesis
    using h no_mesh_fallback [OF h, of sample_origin 2 rng_zero] unfolding r by simp
qed

end
